theory Spec2Isabelle
  imports Complex_Main "HOL-Library.Char_ord" "HOL-Library.List_Lexorder"
    "HOL-Library.Product_Lexorder"
begin

section \<open>Identifying the most valuable customers: the notebook as HOL functions\<close>

text \<open>
  The repository is one notebook, \<^verbatim>\<open>Identifying-most-valuable-customers.ipynb\<close>. Its code
  cells form a straight-line pandas pipeline over a table \<^verbatim>\<open>data\<close> of transactions:
  group by customer, take the last transaction date, flag churned customers, count and
  sum per customer, min-max scale both features, combine them into a score, compute a
  coupon amount, and keep the first 50 churned rows.

  Modelling decisions, each one following the notebook:
  \<^item> a table is the list of its rows, in row order; a column is the list of its values;
  \<^item> \<^verbatim>\<open>tran_amount\<close> is an int64 column of the data (cell 2 prints the dtypes), and so are
    the counts and the sums per customer. An int64 value is an integer from \<open>-2^63\<close> to
    \<open>2^63 - 1\<close>; sums and differences of int64 values wrap around modulo \<open>2^64\<close>, and
    \<open>wrap64\<close> writes that out wherever the notebook adds or subtracts such columns;
  \<^item> \<^verbatim>\<open>trans_date\<close> holds calendar days, written (year, month, day) and compared
    lexicographically, which is the order of the corresponding timestamps;
  \<^item> the results of true division and of the float arithmetic after it are values of
    \<open>fnum\<close>: not-a-number, the two infinities, or a finite number. Finite numbers are exact
    rationals, so rounding of binary floating point is idealised away, while division by
    zero behaves as numpy's does.
\<close>

subsection \<open>Data model\<close>

type_synonym date = "nat \<times> nat \<times> nat"

record transaction =
  customer_id :: string
  trans_date :: date
  tran_amount :: int

text \<open>
  int64 arithmetic: \<open>wrap64 i\<close> is the int64 value that the exact result \<open>i\<close> of an addition
  or subtraction is stored as, and \<open>in_int64 i\<close> says that \<open>i\<close> is stored unchanged. The
  constants are \<open>2^63\<close> and \<open>2^64\<close>.
\<close>

definition wrap64 :: "int \<Rightarrow> int" where
  "wrap64 i = (i + 9223372036854775808) mod 18446744073709551616 - 9223372036854775808"

definition in_int64 :: "int \<Rightarrow> bool" where
  "in_int64 i = (- 9223372036854775808 \<le> i \<and> i \<le> 9223372036854775807)"

text \<open>
  Float results. \<open>NaN\<close> is not-a-number, \<open>PInf\<close> and \<open>NInf\<close> are the infinities, \<open>Fin q\<close> is
  the finite number \<open>q\<close>. Zero is unsigned.
\<close>

datatype fnum = NaN | PInf | NInf | Fin rat

text \<open>One row of the per-customer table after grouping (the Aggregator's output).\<close>

record customer_summary =
  cust :: string
  last_transaction_date :: "date option"
  transaction_count :: int
  total_amount :: int

text \<open>
  One row of \<^verbatim>\<open>best_churn\<close> after \<^verbatim>\<open>trans_date\<close> has been dropped, and one row after the three
  score columns have been added. The index of the frame is the customer id.
\<close>

record summary =
  customer :: string
  churned :: int
  nr_of_transactions :: int
  amount_spent :: int

record scored = summary +
  scaled_tran :: fnum
  scaled_amount :: fnum
  score :: fnum

text \<open>
  Errors: the three names of the specification's taxonomy, and \<open>ValueError\<close>, the Python
  exception that pandas raises when a frame of the wrong width is assigned to a column.
  The notebook itself has no \<^verbatim>\<open>raise\<close>, no assertion and no \<^verbatim>\<open>try\<close>.
\<close>

datatype error = EmptyInputError | MalformedRecordError | DegenerateFeatureError | ValueError

text \<open>The dtype of a column of a frame.\<close>

datatype dtype = Int64 | Datetime64 | Object

subsection \<open>Float arithmetic with not-a-number and infinities\<close>

fun fadd :: "fnum \<Rightarrow> fnum \<Rightarrow> fnum" where
  "fadd NaN y = NaN"
| "fadd x NaN = NaN"
| "fadd (Fin a) (Fin b) = Fin (a + b)"
| "fadd PInf NInf = NaN"
| "fadd NInf PInf = NaN"
| "fadd PInf y = PInf"
| "fadd NInf y = NInf"
| "fadd (Fin a) y = y"

fun fmul :: "fnum \<Rightarrow> fnum \<Rightarrow> fnum" where
  "fmul NaN y = NaN"
| "fmul x NaN = NaN"
| "fmul (Fin a) (Fin b) = Fin (a * b)"
| "fmul (Fin a) PInf = (if a = 0 then NaN else if 0 < a then PInf else NInf)"
| "fmul (Fin a) NInf = (if a = 0 then NaN else if 0 < a then NInf else PInf)"
| "fmul PInf (Fin b) = (if b = 0 then NaN else if 0 < b then PInf else NInf)"
| "fmul NInf (Fin b) = (if b = 0 then NaN else if 0 < b then NInf else PInf)"
| "fmul PInf PInf = PInf"
| "fmul NInf NInf = PInf"
| "fmul PInf NInf = NInf"
| "fmul NInf PInf = NInf"

fun fdiv :: "fnum \<Rightarrow> fnum \<Rightarrow> fnum" where
  "fdiv NaN y = NaN"
| "fdiv x NaN = NaN"
| "fdiv (Fin a) (Fin b) =
     (if b = 0 then (if a = 0 then NaN else if 0 < a then PInf else NInf)
      else Fin (a / b))"
| "fdiv (Fin a) y = Fin 0"
| "fdiv PInf (Fin b) = (if 0 \<le> b then PInf else NInf)"
| "fdiv NInf (Fin b) = (if 0 \<le> b then NInf else PInf)"
| "fdiv x y = NaN"

text \<open>Comparison of floats: every comparison with not-a-number is false.\<close>

fun fle :: "fnum \<Rightarrow> fnum \<Rightarrow> bool" where
  "fle NaN y = False"
| "fle x NaN = False"
| "fle (Fin a) (Fin b) = (a \<le> b)"
| "fle NInf y = True"
| "fle x PInf = True"
| "fle x y = False"

text \<open>\<open>fin_between lo hi x\<close>: \<open>x\<close> is a finite number in the closed interval from \<open>lo\<close> to \<open>hi\<close>.\<close>

definition fin_between :: "rat \<Rightarrow> rat \<Rightarrow> fnum \<Rightarrow> bool" where
  "fin_between lo hi x = (case x of Fin v \<Rightarrow> lo \<le> v \<and> v \<le> hi | _ \<Rightarrow> False)"

text \<open>
  \<^verbatim>\<open>Series / scalar\<close> on int64 values is numpy's true division: the operands become
  floats, \<open>0/0\<close> is not-a-number and \<open>x/0\<close> is an infinity; nothing is raised.
\<close>

definition truediv :: "int \<Rightarrow> int \<Rightarrow> fnum" where
  "truediv a b = fdiv (Fin (of_int a)) (Fin (of_int b))"

subsection \<open>Reductions of a column\<close>

text \<open>
  \<^verbatim>\<open>Series.min()\<close>, \<^verbatim>\<open>Series.max()\<close>: the least and the greatest value; on an empty column
  pandas returns a missing value (\<open>None\<close> here) and raises nothing.
\<close>

fun series_min :: "'a::linorder list \<Rightarrow> 'a option" where
  "series_min [] = None"
| "series_min (x # xs) = Some (fold min xs x)"

fun series_max :: "'a::linorder list \<Rightarrow> 'a option" where
  "series_max [] = None"
| "series_max (x # xs) = Some (fold max xs x)"

text \<open>A column whose values are all the same: its maximum minus its minimum is zero.\<close>

definition all_equal :: "int list \<Rightarrow> bool" where
  "all_equal xs = (\<forall>x\<in>set xs. \<forall>y\<in>set xs. x = y)"

text \<open>
  \<^verbatim>\<open>Series.mean()\<close>: not-a-number on an empty column. pandas adds an int64 column up in
  float64 for the mean, so this sum does not wrap around.
\<close>

definition series_mean :: "int list \<Rightarrow> fnum" where
  "series_mean xs =
     (if xs = [] then NaN else Fin (of_int (sum_list xs) / of_int (int (length xs))))"

subsection \<open>Aggregator: grouping by customer\<close>

text \<open>
  \<^verbatim>\<open>group_by_customer = data.groupby("customer_id")\<close>. The group keys are the distinct
  customer ids, sorted (pandas' default \<^verbatim>\<open>sort=True\<close>); a group holds the rows of its key
  in their order in \<^verbatim>\<open>data\<close>.
\<close>

definition group_by_customer :: "transaction list \<Rightarrow> (string \<times> transaction list) list" where
  "group_by_customer data =
     map (\<lambda>k. (k, filter (\<lambda>t. customer_id t = k) data))
       (sort (remdups (map customer_id data)))"

text \<open>
  \<^verbatim>\<open>last_transaction = group_by_customer["trans_date"].max()\<close>,
  \<^verbatim>\<open>group_by_customer.size()\<close> and \<^verbatim>\<open>group_by_customer.sum()\<close>: one entry per group, all three on
  the same index, so they are the columns of one table. The sum of an int64 column is
  an int64 value: it wraps around. The size of a group is the number of its rows, which
  is far below \<open>2^63\<close> for a frame in memory.
\<close>

definition group_summary :: "string \<Rightarrow> transaction list \<Rightarrow> customer_summary" where
  "group_summary k g =
     \<lparr>cust = k,
      last_transaction_date = series_max (map trans_date g),
      transaction_count = int (length g),
      total_amount = wrap64 (sum_list (map tran_amount g))\<rparr>"

definition aggregate :: "transaction list \<Rightarrow> customer_summary list" where
  "aggregate data = map (\<lambda>(k, g). group_summary k g) (group_by_customer data)"

subsection \<open>Churn classifier\<close>

text \<open>\<^verbatim>\<open>cutoff_day = dt.datetime(2019, 10, 16)\<close>\<close>

definition cutoff_day :: date where
  "cutoff_day = (2019, 10, 16)"

text \<open>
  \<^verbatim>\<open>lambda date: 1 if date < cutoff_day else 0\<close>. A missing date compares false with
  every date, so it takes the \<^verbatim>\<open>else\<close> branch.
\<close>

definition churned_flag :: "date option \<Rightarrow> int" where
  "churned_flag date =
     (case date of None \<Rightarrow> 0 | Some d \<Rightarrow> if d < cutoff_day then 1 else 0)"

text \<open>
  \<^verbatim>\<open>best_churn\<close> after the cells that add \<^verbatim>\<open>churned\<close>, \<^verbatim>\<open>nr_of_transactions\<close>
  and \<^verbatim>\<open>amount_spent\<close> and drop \<^verbatim>\<open>trans_date\<close>.
\<close>

definition classify :: "customer_summary \<Rightarrow> summary" where
  "classify a =
     \<lparr>customer = cust a,
      churned = churned_flag (last_transaction_date a),
      nr_of_transactions = transaction_count a,
      amount_spent = total_amount a\<rparr>"

definition best_churn :: "transaction list \<Rightarrow> summary list" where
  "best_churn data = map classify (aggregate data)"

subsection \<open>Scorer\<close>

text \<open>
  The cell that adds \<^verbatim>\<open>scaled_tran\<close>, \<^verbatim>\<open>scaled_amount\<close> and \<^verbatim>\<open>score\<close>. The subtractions
  (column minus minimum, maximum minus minimum) are on int64 values and wrap around; the
  division is true division; \<^verbatim>\<open>100*(.5*a + .5*b)\<close> is float arithmetic. On an empty frame
  every column stays empty.
\<close>

definition score_row :: "int \<Rightarrow> int \<Rightarrow> int \<Rightarrow> int \<Rightarrow> summary \<Rightarrow> scored" where
  "score_row tmin tmax amin amax r =
     (let st = truediv (wrap64 (nr_of_transactions r - tmin)) (wrap64 (tmax - tmin));
          sa = truediv (wrap64 (amount_spent r - amin)) (wrap64 (amax - amin))
      in \<lparr>customer = customer r, churned = churned r,
          nr_of_transactions = nr_of_transactions r, amount_spent = amount_spent r,
          scaled_tran = st, scaled_amount = sa,
          score = fmul (Fin 100) (fadd (fmul (Fin (1/2)) st) (fmul (Fin (1/2)) sa))\<rparr>)"

definition score_table :: "summary list \<Rightarrow> scored list" where
  "score_table t =
     (case (series_min (map nr_of_transactions t), series_max (map nr_of_transactions t),
            series_min (map amount_spent t), series_max (map amount_spent t)) of
        (Some tmin, Some tmax, Some amin, Some amax) \<Rightarrow>
          map (score_row tmin tmax amin amax) t
      | _ \<Rightarrow> [])"

subsection \<open>Coupon amount and selection\<close>

text \<open>
  \<^verbatim>\<open>coupon = data["tran_amount"].mean()*0.3\<close> and \<^verbatim>\<open>nr_of_customers = 1000/coupon\<close>.
\<close>

definition coupon :: "transaction list \<Rightarrow> fnum" where
  "coupon data = fmul (series_mean (map tran_amount data)) (Fin (3/10))"

definition nr_of_customers :: "transaction list \<Rightarrow> fnum" where
  "nr_of_customers data = fdiv (Fin 1000) (coupon data)"

text \<open>
  \<^verbatim>\<open>top_50_churned = best_churn.loc[best_churn["churned"] == 1].head(50)\<close>. The row count
  is the literal 50 of the notebook; \<^verbatim>\<open>nr_of_customers\<close> is printed and not used.
\<close>

definition loc_churned :: "scored list \<Rightarrow> scored list" where
  "loc_churned t = filter (\<lambda>r. churned r = 1) t"

definition head_rows :: "nat \<Rightarrow> 'a list \<Rightarrow> 'a list" where
  "head_rows n t = take n t"

definition top_50_churned :: "scored list \<Rightarrow> scored list" where
  "top_50_churned t = head_rows 50 (loc_churned t)"

text \<open>
  The notebook computes no rounding and no floor: between its two last cells it says in
  prose "We will round off the coupon amount to 20 - which will get us the number of
  customers to be 50". The two definitions below are the specification's wording of
  these steps, rounding to the nearest unit and \<open>N = floor(budget / coupon_value)\<close>, to
  compare the notebook with.
\<close>

definition spec_rounded_coupon :: "fnum \<Rightarrow> int option" where
  "spec_rounded_coupon c = (case c of Fin v \<Rightarrow> Some (round v) | _ \<Rightarrow> None)"

definition spec_N :: "rat \<Rightarrow> rat \<Rightarrow> nat" where
  "spec_N budget coupon_value = nat \<lfloor>budget / coupon_value\<rfloor>"

subsection \<open>The stages as functions that may fail\<close>

text \<open>
  In the sum-typed reading of a stage, \<open>Inl e\<close> is the stage raising \<open>e\<close>.

  The one cell of the Aggregator that can raise is
  \<^verbatim>\<open>best_churn["amount_spent"] = group_by_customer.sum()\<close>: it assigns a frame to one
  column, which pandas accepts only for a frame of one column. How many columns
  \<^verbatim>\<open>group_by_customer.sum()\<close> has depends on the dtypes that
  \<^verbatim>\<open>pd.read_csv("rfm_xmas19.txt", parse_dates=["trans_date"])\<close> gave the columns:
  \<^item> with at least one row, \<^verbatim>\<open>trans_date\<close> is datetime64 and \<^verbatim>\<open>tran_amount\<close> is int64 (the
    dtypes cell 2 prints); with a header and no row, every column is object;
  \<^item> the sum keeps each column other than the key that is not datetime64.
\<close>

definition read_dtypes :: "transaction list \<Rightarrow> dtype list" where
  "read_dtypes data = (if data = [] then [Object, Object] else [Datetime64, Int64])"

definition sum_columns :: "dtype list \<Rightarrow> dtype list" where
  "sum_columns ds = filter (\<lambda>d. d \<noteq> Datetime64) ds"

definition aggregator_stage :: "transaction list \<Rightarrow> error + customer_summary list" where
  "aggregator_stage data =
     (if length (sum_columns (read_dtypes data)) = 1 then Inr (aggregate data)
      else Inl ValueError)"

text \<open>
  The Scorer has no raising path: a zero range gives not-a-number, without an exception.
\<close>

definition scorer_stage :: "summary list \<Rightarrow> error + scored list" where
  "scorer_stage t = Inr (score_table t)"

text \<open>
  The notebook from its first code cell after loading to its last: an exception in a
  cell ends the run, and the cells after it produce nothing.
\<close>

definition run :: "transaction list \<Rightarrow> error + scored list" where
  "run data =
     (case aggregator_stage data of
        Inl e \<Rightarrow> Inl e
      | Inr s \<Rightarrow>
          (case scorer_stage (map classify s) of
             Inl e \<Rightarrow> Inl e
           | Inr t \<Rightarrow> Inr (top_50_churned t)))"

subsection \<open>Concrete populations\<close>

text \<open>
  The five customers at the head of the notebook's \<^verbatim>\<open>best_churn\<close> table, taken as a
  population of their own.
\<close>

definition t5 :: "summary list" where
  "t5 = [\<lparr>customer = ''FM1112'', churned = 1, nr_of_transactions = 15, amount_spent = 1012\<rparr>,
         \<lparr>customer = ''FM1113'', churned = 0, nr_of_transactions = 20, amount_spent = 1490\<rparr>,
         \<lparr>customer = ''FM1114'', churned = 0, nr_of_transactions = 19, amount_spent = 1432\<rparr>,
         \<lparr>customer = ''FM1115'', churned = 0, nr_of_transactions = 22, amount_spent = 1659\<rparr>,
         \<lparr>customer = ''FM1116'', churned = 1, nr_of_transactions = 13, amount_spent = 857\<rparr>]"

text \<open>Three transactions of two customers, not in customer order.\<close>

definition sample_data :: "transaction list" where
  "sample_data =
     [\<lparr>customer_id = ''FM1113'', trans_date = (2019, 10, 14), tran_amount = 50\<rparr>,
      \<lparr>customer_id = ''FM1112'', trans_date = (2019, 9, 1), tran_amount = 30\<rparr>,
      \<lparr>customer_id = ''FM1113'', trans_date = (2019, 11, 9), tran_amount = 70\<rparr>]"

text \<open>Two customers with the same number of transactions.\<close>

definition tied_counts :: "summary list" where
  "tied_counts =
     [\<lparr>customer = ''FM1'', churned = 1, nr_of_transactions = 3, amount_spent = 10\<rparr>,
      \<lparr>customer = ''FM2'', churned = 0, nr_of_transactions = 3, amount_spent = 20\<rparr>]"

text \<open>Three customers, two of them churned, the churned ones in ascending score order.\<close>

definition pop3 :: "summary list" where
  "pop3 =
     [\<lparr>customer = ''FM1'', churned = 1, nr_of_transactions = 2, amount_spent = 10\<rparr>,
      \<lparr>customer = ''FM2'', churned = 1, nr_of_transactions = 5, amount_spent = 40\<rparr>,
      \<lparr>customer = ''FM3'', churned = 0, nr_of_transactions = 9, amount_spent = 90\<rparr>]"

text \<open>Fifty-one churned customers with distinct ids, and their scored table.\<close>

definition crowd_summaries :: "summary list" where
  "crowd_summaries =
     map (\<lambda>i. \<lparr>customer = replicate (Suc i) (CHR ''c''), churned = 1,
                nr_of_transactions = int i + 1, amount_spent = 10 * (int i + 1)\<rparr>) [0..<51]"

definition crowd :: "scored list" where
  "crowd = score_table crowd_summaries"

text \<open>
  Three customers whose amounts span the int64 range: the least int64 value, zero and
  the greatest int64 value. The least value is also what the Aggregator stores for a
  customer whose amounts add up to \<open>2^63\<close>, as those of \<open>overflow_data\<close> below do.
\<close>

definition wide_table :: "summary list" where
  "wide_table =
     [\<lparr>customer = ''FM1'', churned = 0, nr_of_transactions = 1,
       amount_spent = - 9223372036854775808\<rparr>,
      \<lparr>customer = ''FM2'', churned = 0, nr_of_transactions = 2, amount_spent = 0\<rparr>,
      \<lparr>customer = ''FM3'', churned = 0, nr_of_transactions = 3,
       amount_spent = 9223372036854775807\<rparr>]"

text \<open>
  Transaction tables given by their amounts, all of one customer. \<open>reference_like\<close> has
  125000 transactions with total 8123989: the row count the notebook prints for its
  data, and the only integer total for which 0.3 times the mean is the coupon amount
  19.4975736 that it prints; the mean is 64.991912. \<open>overflow_data\<close> has two transactions
  whose sum is \<open>2^63\<close>.
\<close>

definition tx :: "int \<Rightarrow> transaction" where
  "tx a = \<lparr>customer_id = ''FM1112'', trans_date = (2019, 10, 14), tran_amount = a\<rparr>"

definition reference_like :: "transaction list" where
  "reference_like = replicate 123989 (tx 65) @ replicate 1011 (tx 64)"

definition overflow_data :: "transaction list" where
  "overflow_data = [tx 9223372036854775807, tx 1]"

section \<open>Properties\<close>

subsection \<open>Auxiliary facts\<close>

lemma series_min_Min:
  assumes "xs \<noteq> []"
  shows "series_min xs = Some (Min (set xs))"
proof (cases xs)
  case Nil
  with assms show ?thesis by simp
next
  case (Cons y ys)
  have "fold min ys y = Min (set (y # ys))" by (simp only: Min.set_eq_fold)
  with Cons show ?thesis by simp
qed

lemma series_max_Max:
  assumes "xs \<noteq> []"
  shows "series_max xs = Some (Max (set xs))"
proof (cases xs)
  case Nil
  with assms show ?thesis by simp
next
  case (Cons y ys)
  have "fold max ys y = Max (set (y # ys))" by (simp only: Max.set_eq_fold)
  with Cons show ?thesis by simp
qed

lemma score_table_map:
  assumes "t \<noteq> []"
  shows "score_table t =
     map (score_row (Min (nr_of_transactions ` set t)) (Max (nr_of_transactions ` set t))
            (Min (amount_spent ` set t)) (Max (amount_spent ` set t))) t"
  using assms by (simp add: score_table_def series_min_Min series_max_Max)

lemma truediv_Fin: "b \<noteq> 0 \<Longrightarrow> truediv a b = Fin (of_int a / of_int b)"
  by (simp add: truediv_def)

lemma wrap64_id: "in_int64 i \<Longrightarrow> wrap64 i = i"
  by (simp add: wrap64_def in_int64_def)

lemma wrap64_zero: "wrap64 0 = 0"
  by (simp add: wrap64_def)

lemma Min_less_Max:
  fixes S :: "int set"
  assumes "finite S" "a \<in> S" "b \<in> S" "a \<noteq> b"
  shows "Min S < Max S"
proof -
  have "Min S \<le> a" "Min S \<le> b" "a \<le> Max S" "b \<le> Max S"
    using assms by simp_all
  with assms(4) show ?thesis by linarith
qed

lemma score_row_Fin:
  assumes "tmin \<noteq> tmax" "amin \<noteq> amax"
    and "in_int64 (tmax - tmin)" "in_int64 (amax - amin)"
    and "tmin \<le> nr_of_transactions r" "nr_of_transactions r \<le> tmax"
    and "amin \<le> amount_spent r" "amount_spent r \<le> amax"
  shows "score_row tmin tmax amin amax r =
     \<lparr>customer = customer r, churned = churned r,
      nr_of_transactions = nr_of_transactions r, amount_spent = amount_spent r,
      scaled_tran =
        Fin ((of_int (nr_of_transactions r) - of_int tmin) / (of_int tmax - of_int tmin)),
      scaled_amount =
        Fin ((of_int (amount_spent r) - of_int amin) / (of_int amax - of_int amin)),
      score =
        Fin (100 * (1/2 * ((of_int (nr_of_transactions r) - of_int tmin)
                            / (of_int tmax - of_int tmin))
                  + 1/2 * ((of_int (amount_spent r) - of_int amin)
                            / (of_int amax - of_int amin))))\<rparr>"
proof -
  have "in_int64 (nr_of_transactions r - tmin)"
    using assms(3,5,6) by (simp add: in_int64_def)
  moreover have "in_int64 (amount_spent r - amin)"
    using assms(4,7,8) by (simp add: in_int64_def)
  ultimately show ?thesis
    using assms(1-4) by (simp add: score_row_def truediv_Fin Let_def wrap64_id)
qed

lemma unit_quotient:
  fixes x lo hi :: int
  assumes "lo \<le> x" "x \<le> hi" "lo < hi"
  shows "0 \<le> (of_int x - of_int lo) / (of_int hi - of_int lo :: rat)"
    and "(of_int x - of_int lo) / (of_int hi - of_int lo :: rat) \<le> 1"
  using assms by simp_all

lemma quotient_mono:
  fixes x y lo hi :: int
  assumes "x \<le> y" "lo < hi"
  shows "(of_int x - of_int lo) / (of_int hi - of_int lo :: rat)
       \<le> (of_int y - of_int lo) / (of_int hi - of_int lo)"
  using assms by (simp add: divide_right_mono)

lemma score_table_row:
  assumes "r \<in> set (score_table t)"
  shows "t \<noteq> [] \<and> (\<exists>c\<in>set t. r = score_row (Min (nr_of_transactions ` set t)) (Max (nr_of_transactions ` set t))
            (Min (amount_spent ` set t)) (Max (amount_spent ` set t)) c)"
proof -
  have ne: "t \<noteq> []" using assms by (auto simp: score_table_def)
  with assms show ?thesis by (auto simp: score_table_map)
qed

lemma score_table_t5:
  "score_table t5 =
    [\<lparr>customer = ''FM1112'', churned = 1, nr_of_transactions = 15, amount_spent = 1012,
      scaled_tran = Fin (2/9), scaled_amount = Fin (155/802), score = Fin (74975/3609)\<rparr>,
     \<lparr>customer = ''FM1113'', churned = 0, nr_of_transactions = 20, amount_spent = 1490,
      scaled_tran = Fin (7/9), scaled_amount = Fin (633/802), score = Fin (282775/3609)\<rparr>,
     \<lparr>customer = ''FM1114'', churned = 0, nr_of_transactions = 19, amount_spent = 1432,
      scaled_tran = Fin (2/3), scaled_amount = Fin (575/802), score = Fin (83225/1203)\<rparr>,
     \<lparr>customer = ''FM1115'', churned = 0, nr_of_transactions = 22, amount_spent = 1659,
      scaled_tran = Fin 1, scaled_amount = Fin 1, score = Fin 100\<rparr>,
     \<lparr>customer = ''FM1116'', churned = 1, nr_of_transactions = 13, amount_spent = 857,
      scaled_tran = Fin 0, scaled_amount = Fin 0, score = Fin 0\<rparr>]"
  apply (simp add: t5_def score_table_def score_row_def truediv_def wrap64_def)
  apply (simp only: Let_def)
  done

lemma score_table_tied_counts:
  "score_table tied_counts =
    [\<lparr>customer = ''FM1'', churned = 1, nr_of_transactions = 3, amount_spent = 10,
      scaled_tran = NaN, scaled_amount = Fin 0, score = NaN\<rparr>,
     \<lparr>customer = ''FM2'', churned = 0, nr_of_transactions = 3, amount_spent = 20,
      scaled_tran = NaN, scaled_amount = Fin 1, score = NaN\<rparr>]"
  by (simp add: tied_counts_def score_table_def score_row_def truediv_def wrap64_def)

lemma score_table_wide:
  "score_table wide_table =
    [\<lparr>customer = ''FM1'', churned = 0, nr_of_transactions = 1,
      amount_spent = - 9223372036854775808,
      scaled_tran = Fin 0, scaled_amount = Fin 0, score = Fin 0\<rparr>,
     \<lparr>customer = ''FM2'', churned = 0, nr_of_transactions = 2, amount_spent = 0,
      scaled_tran = Fin (1/2), scaled_amount = Fin 9223372036854775808,
      score = Fin 461168601842738790425\<rparr>,
     \<lparr>customer = ''FM3'', churned = 0, nr_of_transactions = 3,
      amount_spent = 9223372036854775807,
      scaled_tran = Fin 1, scaled_amount = Fin 1, score = Fin 100\<rparr>]"
  apply (simp add: wide_table_def score_table_def score_row_def truediv_def wrap64_def)
  apply (simp only: Let_def)
  done

lemma wide_ranges:
  "Min (nr_of_transactions ` set wide_table) = 1" "Max (nr_of_transactions ` set wide_table) = 3"
  "Min (amount_spent ` set wide_table) = - 9223372036854775808"
  "Max (amount_spent ` set wide_table) = 9223372036854775807"
  by (simp_all add: wide_table_def)

lemma t5_ranges:
  "Min (nr_of_transactions ` set t5) = 13" "Max (nr_of_transactions ` set t5) = 22"
  "Min (amount_spent ` set t5) = 857" "Max (amount_spent ` set t5) = 1659"
  by (simp_all add: t5_def)

lemma fadd_NaN_right: "fadd x NaN = NaN"
  by (cases x) simp_all

lemma all_equal_Min_Max:
  fixes f :: "'a \<Rightarrow> int"
  assumes "\<forall>a\<in>set t. \<forall>b\<in>set t. f a = f b" and "c \<in> set t"
  shows "Min (f ` set t) = f c" and "Max (f ` set t) = f c"
proof -
  have "x = f c" if "x \<in> f ` set t" for x
    using that assms by blast
  moreover have "f c \<in> f ` set t"
    using assms(2) by (rule imageI)
  ultimately have "f ` set t = {f c}" by blast
  then show "Min (f ` set t) = f c" and "Max (f ` set t) = f c" by simp_all
qed

subsection \<open>Scorer: the min-max formula\<close>

text \<open>
  C1, as the specification states it: in every table in which neither the counts nor
  the amounts are all equal, the scaled amount of each customer is
  (amount - min amount) / (max amount - min amount). The notebook subtracts int64
  columns, and the differences wrap around. In \<open>wide_table\<close> the range of the amounts is
  \<open>2^64 - 1\<close>, stored as -1, and the second customer's amount minus the minimum is
  \<open>2^63\<close>, stored as \<open>-2^63\<close>: the scaled amount is \<open>2^63\<close>, not \<open>2^63 / (2^64 - 1)\<close>.
\<close>

theorem scorer_formula_counterexample:
  "\<not> all_equal (map nr_of_transactions wide_table) \<and>
   \<not> all_equal (map amount_spent wide_table) \<and>
   scaled_amount (score_table wide_table ! 1) = Fin 9223372036854775808 \<and>
   scaled_amount (score_table wide_table ! 1) \<noteq>
     Fin ((of_int (amount_spent (wide_table ! 1)) - of_int (Min (amount_spent ` set wide_table)))
          / (of_int (Max (amount_spent ` set wide_table))
             - of_int (Min (amount_spent ` set wide_table))))"
proof -
  have "\<not> all_equal (map nr_of_transactions wide_table)"
    and "\<not> all_equal (map amount_spent wide_table)"
    by (simp_all add: wide_table_def all_equal_def)
  moreover have "scaled_amount (score_table wide_table ! 1) = Fin 9223372036854775808"
    by (simp add: score_table_wide)
  moreover have "amount_spent (wide_table ! 1) = 0"
    by (simp add: wide_table_def)
  ultimately show ?thesis
    by (simp add: wide_ranges)
qed

text \<open>
  C1, as the notebook behaves: take a table of customer summaries in which the
  transaction counts are not all equal and the total amounts are not all equal (such a
  table is not empty), and in which max count - min count and max amount - min amount
  are at most \<open>2^63 - 1\<close>, so that no difference wraps around (as in every table without
  negative counts and amounts). The scored table has one row per customer, in the same
  order, and for the customer in row \<open>i\<close>: the scaled count is
  (count - min count) / (max count - min count), the scaled amount is
  (amount - min amount) / (max amount - min amount), and the score is
  100 * (0.5 * scaled count + 0.5 * scaled amount), with minima and maxima over the whole
  table. All three are finite numbers.
\<close>

theorem scorer_formula:
  assumes "\<not> all_equal (map nr_of_transactions t)"
    and "\<not> all_equal (map amount_spent t)"
    and "in_int64 (Max (nr_of_transactions ` set t) - Min (nr_of_transactions ` set t))"
    and "in_int64 (Max (amount_spent ` set t) - Min (amount_spent ` set t))"
    and "i < length t"
  shows "length (score_table t) = length t \<and>
     customer (score_table t ! i) = customer (t ! i) \<and>
     scaled_tran (score_table t ! i) =
       Fin ((of_int (nr_of_transactions (t ! i)) - of_int (Min (nr_of_transactions ` set t)))
            / (of_int (Max (nr_of_transactions ` set t))
               - of_int (Min (nr_of_transactions ` set t)))) \<and>
     scaled_amount (score_table t ! i) =
       Fin ((of_int (amount_spent (t ! i)) - of_int (Min (amount_spent ` set t)))
            / (of_int (Max (amount_spent ` set t)) - of_int (Min (amount_spent ` set t)))) \<and>
     score (score_table t ! i) =
       Fin (100 *
         (1/2 * ((of_int (nr_of_transactions (t ! i)) - of_int (Min (nr_of_transactions ` set t)))
                 / (of_int (Max (nr_of_transactions ` set t))
                    - of_int (Min (nr_of_transactions ` set t))))
          + 1/2 * ((of_int (amount_spent (t ! i)) - of_int (Min (amount_spent ` set t)))
                 / (of_int (Max (amount_spent ` set t))
                    - of_int (Min (amount_spent ` set t))))))"
proof -
  from assms(5) have ne: "t \<noteq> []" by auto
  from assms(5) have b:
    "Min (nr_of_transactions ` set t) \<le> nr_of_transactions (t ! i)"
    "nr_of_transactions (t ! i) \<le> Max (nr_of_transactions ` set t)"
    "Min (amount_spent ` set t) \<le> amount_spent (t ! i)"
    "amount_spent (t ! i) \<le> Max (amount_spent ` set t)"
    by simp_all
  from assms(1) obtain x y where "x \<in> nr_of_transactions ` set t"
    "y \<in> nr_of_transactions ` set t" "x \<noteq> y"
    unfolding all_equal_def set_map by blast
  then have "Min (nr_of_transactions ` set t) < Max (nr_of_transactions ` set t)"
    by (intro Min_less_Max [of _ x y]) simp_all
  then have c: "Min (nr_of_transactions ` set t) \<noteq> Max (nr_of_transactions ` set t)"
    by simp
  from assms(2) obtain u v where "u \<in> amount_spent ` set t"
    "v \<in> amount_spent ` set t" "u \<noteq> v"
    unfolding all_equal_def set_map by blast
  then have "Min (amount_spent ` set t) < Max (amount_spent ` set t)"
    by (intro Min_less_Max [of _ u v]) simp_all
  then have a: "Min (amount_spent ` set t) \<noteq> Max (amount_spent ` set t)"
    by simp
  show ?thesis
    using assms(5)
    by (simp add: score_table_map [OF ne] score_row_Fin [OF c a assms(3,4) b])
qed

theorem scorer_formula_witness:
  "\<not> all_equal (map nr_of_transactions t5) \<and>
   \<not> all_equal (map amount_spent t5) \<and>
   in_int64 (Max (nr_of_transactions ` set t5) - Min (nr_of_transactions ` set t5)) \<and>
   in_int64 (Max (amount_spent ` set t5) - Min (amount_spent ` set t5)) \<and>
   (0::nat) < length t5 \<and>
   length (score_table t5) = 5 \<and>
   customer (score_table t5 ! 0) = ''FM1112'' \<and>
   scaled_tran (score_table t5 ! 0) = Fin (2/9) \<and>
   scaled_amount (score_table t5 ! 0) = Fin (155/802) \<and>
   score (score_table t5 ! 0) = Fin (74975/3609)"
proof -
  have h1: "\<not> all_equal (map nr_of_transactions t5)"
    by (simp add: t5_def all_equal_def)
  have h2: "\<not> all_equal (map amount_spent t5)"
    by (simp add: t5_def all_equal_def)
  have r1: "in_int64 (Max (nr_of_transactions ` set t5) - Min (nr_of_transactions ` set t5))"
    and r2: "in_int64 (Max (amount_spent ` set t5) - Min (amount_spent ` set t5))"
    by (simp_all add: t5_ranges in_int64_def)
  have h3: "(0::nat) < length t5"
    by (simp add: t5_def)
  have "length (score_table t5) = 5 \<and>
     customer (score_table t5 ! 0) = ''FM1112'' \<and>
     scaled_tran (score_table t5 ! 0) = Fin (2/9) \<and>
     scaled_amount (score_table t5 ! 0) = Fin (155/802) \<and>
     score (score_table t5 ! 0) = Fin (74975/3609)"
    using scorer_formula [OF h1 h2 r1 r2 h3] by (simp add: t5_def)
  with h1 h2 r1 r2 h3 show ?thesis by blast
qed

subsection \<open>Scorer: ranges of the scaled values and of the score\<close>

text \<open>
  C5, as the specification states it: whenever both normalisation denominators are
  non-zero, every scaled value lies in [0,1] and every score in [0,100]. In \<open>wide_table\<close>
  both denominators are non-zero, as differences of integers and as the int64 values
  the notebook divides by, and the second customer has scaled amount \<open>2^63\<close> and a score
  above \<open>4.6 * 10^20\<close>.
\<close>

theorem scaled_bounds_counterexample:
  "Max (nr_of_transactions ` set wide_table) - Min (nr_of_transactions ` set wide_table) \<noteq> 0 \<and>
   Max (amount_spent ` set wide_table) - Min (amount_spent ` set wide_table) \<noteq> 0 \<and>
   wrap64 (Max (nr_of_transactions ` set wide_table)
           - Min (nr_of_transactions ` set wide_table)) \<noteq> 0 \<and>
   wrap64 (Max (amount_spent ` set wide_table) - Min (amount_spent ` set wide_table)) \<noteq> 0 \<and>
   score_table wide_table ! 1 \<in> set (score_table wide_table) \<and>
   \<not> fin_between 0 1 (scaled_amount (score_table wide_table ! 1)) \<and>
   \<not> fin_between 0 100 (score (score_table wide_table ! 1))"
  by (simp add: wide_ranges wrap64_def) (simp add: score_table_wide fin_between_def)

text \<open>
  C5, as the notebook behaves: whenever both normalisation denominators (max count - min
  count, max amount - min amount) are non-zero and at most \<open>2^63 - 1\<close>, so that no
  difference wraps around, every row of the scored table has a scaled count and a
  scaled amount that are finite and lie in [0,1], and a score that is finite and lies
  in [0,100]. A customer with the minimum count has scaled count exactly 0, one with the
  maximum count exactly 1, and likewise for the amount; a customer attaining both minima
  scores exactly 0 and a customer attaining both maxima scores exactly 100.
\<close>

theorem scaled_bounds:
  assumes "Max (nr_of_transactions ` set t) - Min (nr_of_transactions ` set t) \<noteq> 0"
    and "Max (amount_spent ` set t) - Min (amount_spent ` set t) \<noteq> 0"
    and "in_int64 (Max (nr_of_transactions ` set t) - Min (nr_of_transactions ` set t))"
    and "in_int64 (Max (amount_spent ` set t) - Min (amount_spent ` set t))"
    and "r \<in> set (score_table t)"
  shows "fin_between 0 1 (scaled_tran r) \<and> fin_between 0 1 (scaled_amount r) \<and>
     fin_between 0 100 (score r) \<and>
     (nr_of_transactions r = Min (nr_of_transactions ` set t) \<longrightarrow> scaled_tran r = Fin 0) \<and>
     (nr_of_transactions r = Max (nr_of_transactions ` set t) \<longrightarrow> scaled_tran r = Fin 1) \<and>
     (amount_spent r = Min (amount_spent ` set t) \<longrightarrow> scaled_amount r = Fin 0) \<and>
     (amount_spent r = Max (amount_spent ` set t) \<longrightarrow> scaled_amount r = Fin 1) \<and>
     (nr_of_transactions r = Min (nr_of_transactions ` set t) \<and>
      amount_spent r = Min (amount_spent ` set t) \<longrightarrow> score r = Fin 0) \<and>
     (nr_of_transactions r = Max (nr_of_transactions ` set t) \<and>
      amount_spent r = Max (amount_spent ` set t) \<longrightarrow> score r = Fin 100)"
proof -
  define tmin tmax amin amax where
    "tmin = Min (nr_of_transactions ` set t)" and "tmax = Max (nr_of_transactions ` set t)" and
    "amin = Min (amount_spent ` set t)" and "amax = Max (amount_spent ` set t)"
  from score_table_row [OF assms(5)] obtain c where c: "c \<in> set t"
    and r: "r = score_row tmin tmax amin amax c"
    by (auto simp: tmin_def tmax_def amin_def amax_def)
  have bt: "tmin \<le> nr_of_transactions c" "nr_of_transactions c \<le> tmax"
    using c by (simp_all add: tmin_def tmax_def)
  have ba: "amin \<le> amount_spent c" "amount_spent c \<le> amax"
    using c by (simp_all add: amin_def amax_def)
  have nt: "tmin \<noteq> tmax" and na: "amin \<noteq> amax"
    using assms(1,2) by (simp_all add: tmin_def tmax_def amin_def amax_def)
  with bt ba have lt: "tmin < tmax" and la: "amin < amax" by linarith+
  have rt: "in_int64 (tmax - tmin)" and ra: "in_int64 (amax - amin)"
    using assms(3,4) by (simp_all add: tmin_def tmax_def amin_def amax_def)
  define u where "u = (of_int (nr_of_transactions c) - of_int tmin) / (of_int tmax - of_int tmin :: rat)"
  define v where "v = (of_int (amount_spent c) - of_int amin) / (of_int amax - of_int amin :: rat)"
  have u: "0 \<le> u" "u \<le> 1" unfolding u_def using unit_quotient [OF bt lt] by simp_all
  have v: "0 \<le> v" "v \<le> 1" unfolding v_def using unit_quotient [OF ba la] by simp_all
  have row: "scaled_tran r = Fin u" "scaled_amount r = Fin v"
    "score r = Fin (100 * (1/2 * u + 1/2 * v))"
    "nr_of_transactions r = nr_of_transactions c" "amount_spent r = amount_spent c"
    by (simp_all add: r score_row_Fin [OF nt na rt ra bt ba] u_def v_def)
  have u0: "nr_of_transactions c = tmin \<Longrightarrow> u = 0" by (simp add: u_def)
  have u1: "nr_of_transactions c = tmax \<Longrightarrow> u = 1" using lt by (simp add: u_def)
  have v0: "amount_spent c = amin \<Longrightarrow> v = 0" by (simp add: v_def)
  have v1: "amount_spent c = amax \<Longrightarrow> v = 1" using la by (simp add: v_def)
  have s: "0 \<le> 100 * (1/2 * u + 1/2 * v)" "100 * (1/2 * u + 1/2 * v) \<le> 100"
    using u v by simp_all
  show ?thesis
    unfolding row fin_between_def tmin_def [symmetric] tmax_def [symmetric]
      amin_def [symmetric] amax_def [symmetric]
    using u v s u0 u1 v0 v1 by simp
qed

theorem scaled_bounds_witness:
  "Max (nr_of_transactions ` set t5) - Min (nr_of_transactions ` set t5) \<noteq> 0 \<and>
   Max (amount_spent ` set t5) - Min (amount_spent ` set t5) \<noteq> 0 \<and>
   in_int64 (Max (nr_of_transactions ` set t5) - Min (nr_of_transactions ` set t5)) \<and>
   in_int64 (Max (amount_spent ` set t5) - Min (amount_spent ` set t5)) \<and>
   score_table t5 ! 0 \<in> set (score_table t5) \<and>
   score_table t5 ! 3 \<in> set (score_table t5) \<and>
   score_table t5 ! 4 \<in> set (score_table t5) \<and>
   fin_between 0 1 (scaled_tran (score_table t5 ! 0)) \<and>
   fin_between 0 1 (scaled_amount (score_table t5 ! 0)) \<and>
   fin_between 0 100 (score (score_table t5 ! 0)) \<and>
   scaled_tran (score_table t5 ! 4) = Fin 0 \<and> scaled_amount (score_table t5 ! 4) = Fin 0 \<and>
   score (score_table t5 ! 4) = Fin 0 \<and>
   scaled_tran (score_table t5 ! 3) = Fin 1 \<and> scaled_amount (score_table t5 ! 3) = Fin 1 \<and>
   score (score_table t5 ! 3) = Fin 100"
proof -
  have h1: "Max (nr_of_transactions ` set t5) - Min (nr_of_transactions ` set t5) \<noteq> 0"
    by (simp add: t5_ranges)
  have h2: "Max (amount_spent ` set t5) - Min (amount_spent ` set t5) \<noteq> 0"
    by (simp add: t5_ranges)
  have k1: "in_int64 (Max (nr_of_transactions ` set t5) - Min (nr_of_transactions ` set t5))"
    and k2: "in_int64 (Max (amount_spent ` set t5) - Min (amount_spent ` set t5))"
    by (simp_all add: t5_ranges in_int64_def)
  have m0: "score_table t5 ! 0 \<in> set (score_table t5)"
    and m3: "score_table t5 ! 3 \<in> set (score_table t5)"
    and m4: "score_table t5 ! 4 \<in> set (score_table t5)"
    by (simp_all add: score_table_t5)
  have f: "nr_of_transactions (score_table t5 ! 3) = 22" "amount_spent (score_table t5 ! 3) = 1659"
    "nr_of_transactions (score_table t5 ! 4) = 13" "amount_spent (score_table t5 ! 4) = 857"
    by (simp_all add: score_table_t5)
  have r0: "fin_between 0 1 (scaled_tran (score_table t5 ! 0)) \<and>
     fin_between 0 1 (scaled_amount (score_table t5 ! 0)) \<and>
     fin_between 0 100 (score (score_table t5 ! 0))"
    using scaled_bounds [OF h1 h2 k1 k2 m0] by simp
  have r3: "scaled_tran (score_table t5 ! 3) = Fin 1 \<and>
     scaled_amount (score_table t5 ! 3) = Fin 1 \<and> score (score_table t5 ! 3) = Fin 100"
    using scaled_bounds [OF h1 h2 k1 k2 m3] f by (simp add: t5_ranges)
  have r4: "scaled_tran (score_table t5 ! 4) = Fin 0 \<and>
     scaled_amount (score_table t5 ! 4) = Fin 0 \<and> score (score_table t5 ! 4) = Fin 0"
    using scaled_bounds [OF h1 h2 k1 k2 m4] f by (simp add: t5_ranges)
  from h1 h2 k1 k2 m0 m3 m4 r0 r3 r4 show ?thesis by simp
qed

subsection \<open>Scorer: monotonicity\<close>

text \<open>
  C10, as the specification states it: in every table where minimum and maximum differ
  for both features, a customer with at most the count and at most the amount of
  another has at most the other's score. In \<open>wide_table\<close> the second customer has a
  smaller count and a smaller amount than the third, and the greater score.
\<close>

theorem score_monotone_counterexample:
  "Min (nr_of_transactions ` set wide_table) \<noteq> Max (nr_of_transactions ` set wide_table) \<and>
   Min (amount_spent ` set wide_table) \<noteq> Max (amount_spent ` set wide_table) \<and>
   nr_of_transactions (wide_table ! 1) \<le> nr_of_transactions (wide_table ! 2) \<and>
   amount_spent (wide_table ! 1) \<le> amount_spent (wide_table ! 2) \<and>
   score (score_table wide_table ! 2) = Fin 100 \<and>
   \<not> fle (score (score_table wide_table ! 1)) (score (score_table wide_table ! 2))"
proof -
  have "nr_of_transactions (wide_table ! 1) \<le> nr_of_transactions (wide_table ! 2)"
    and "amount_spent (wide_table ! 1) \<le> amount_spent (wide_table ! 2)"
    by (simp_all add: wide_table_def)
  moreover have "score (score_table wide_table ! 2) = Fin 100"
    and "\<not> fle (score (score_table wide_table ! 1)) (score (score_table wide_table ! 2))"
    by (simp_all add: score_table_wide)
  ultimately show ?thesis
    by (simp add: wide_ranges)
qed

text \<open>
  C10, as the notebook behaves: in a table where the minimum and the maximum of the
  counts differ, the minimum and the maximum of the amounts differ, and both ranges are
  at most \<open>2^63 - 1\<close>, so that no difference wraps around, scoring is monotone: if the
  customer in row \<open>i\<close> has at most as many transactions as the customer in row \<open>j\<close> and has
  spent at most as much, then the score of row \<open>i\<close> is less than or equal to the score
  of row \<open>j\<close>.
\<close>

theorem score_monotone:
  assumes "Min (nr_of_transactions ` set t) \<noteq> Max (nr_of_transactions ` set t)"
    and "Min (amount_spent ` set t) \<noteq> Max (amount_spent ` set t)"
    and "i < length t" and "j < length t"
    and "nr_of_transactions (t ! i) \<le> nr_of_transactions (t ! j)"
    and "amount_spent (t ! i) \<le> amount_spent (t ! j)"
    and "in_int64 (Max (nr_of_transactions ` set t) - Min (nr_of_transactions ` set t))"
    and "in_int64 (Max (amount_spent ` set t) - Min (amount_spent ` set t))"
  shows "fle (score (score_table t ! i)) (score (score_table t ! j))"
proof -
  from assms(3) have ne: "t \<noteq> []" by auto
  define tmin tmax amin amax where
    "tmin = Min (nr_of_transactions ` set t)" and "tmax = Max (nr_of_transactions ` set t)" and
    "amin = Min (amount_spent ` set t)" and "amax = Max (amount_spent ` set t)"
  have nt: "tmin \<noteq> tmax" and na: "amin \<noteq> amax"
    using assms(1,2) by (simp_all add: tmin_def tmax_def amin_def amax_def)
  have bi: "tmin \<le> nr_of_transactions (t ! i)" "nr_of_transactions (t ! i) \<le> tmax"
    "amin \<le> amount_spent (t ! i)" "amount_spent (t ! i) \<le> amax"
    using assms(3) by (simp_all add: tmin_def tmax_def amin_def amax_def)
  have bj: "tmin \<le> nr_of_transactions (t ! j)" "nr_of_transactions (t ! j) \<le> tmax"
    "amin \<le> amount_spent (t ! j)" "amount_spent (t ! j) \<le> amax"
    using assms(4) by (simp_all add: tmin_def tmax_def amin_def amax_def)
  have rt: "in_int64 (tmax - tmin)" and ra: "in_int64 (amax - amin)"
    using assms(7,8) by (simp_all add: tmin_def tmax_def amin_def amax_def)
  from bi nt na have lt: "tmin < tmax" and la: "amin < amax" by linarith+
  have rows: "score_table t ! i = score_row tmin tmax amin amax (t ! i)"
    "score_table t ! j = score_row tmin tmax amin amax (t ! j)"
    using assms(3,4) by (simp_all add: score_table_map [OF ne] tmin_def tmax_def amin_def amax_def)
  define ui uj where
    "ui = (of_int (nr_of_transactions (t ! i)) - of_int tmin) / (of_int tmax - of_int tmin :: rat)"
    and "uj = (of_int (nr_of_transactions (t ! j)) - of_int tmin) / (of_int tmax - of_int tmin :: rat)"
  define vi vj where
    "vi = (of_int (amount_spent (t ! i)) - of_int amin) / (of_int amax - of_int amin :: rat)"
    and "vj = (of_int (amount_spent (t ! j)) - of_int amin) / (of_int amax - of_int amin :: rat)"
  have le: "ui \<le> uj" "vi \<le> vj"
    unfolding ui_def uj_def vi_def vj_def
    using quotient_mono [OF assms(5) lt] quotient_mono [OF assms(6) la] by simp_all
  have sc: "score (score_table t ! i) = Fin (100 * (1/2 * ui + 1/2 * vi))"
    "score (score_table t ! j) = Fin (100 * (1/2 * uj + 1/2 * vj))"
    by (simp_all add: rows score_row_Fin [OF nt na rt ra bi] score_row_Fin [OF nt na rt ra bj]
        ui_def uj_def vi_def vj_def)
  show ?thesis
    unfolding sc using le by simp
qed

theorem score_monotone_witness:
  "Min (nr_of_transactions ` set t5) \<noteq> Max (nr_of_transactions ` set t5) \<and>
   Min (amount_spent ` set t5) \<noteq> Max (amount_spent ` set t5) \<and>
   (0::nat) < length t5 \<and> (1::nat) < length t5 \<and>
   nr_of_transactions (t5 ! 0) \<le> nr_of_transactions (t5 ! 1) \<and>
   amount_spent (t5 ! 0) \<le> amount_spent (t5 ! 1) \<and>
   in_int64 (Max (nr_of_transactions ` set t5) - Min (nr_of_transactions ` set t5)) \<and>
   in_int64 (Max (amount_spent ` set t5) - Min (amount_spent ` set t5)) \<and>
   fle (score (score_table t5 ! 0)) (score (score_table t5 ! 1))"
proof -
  have h1: "Min (nr_of_transactions ` set t5) \<noteq> Max (nr_of_transactions ` set t5)"
    and h2: "Min (amount_spent ` set t5) \<noteq> Max (amount_spent ` set t5)"
    by (simp_all add: t5_ranges)
  have h3: "(0::nat) < length t5" and h4: "(1::nat) < length t5"
    and h5: "nr_of_transactions (t5 ! 0) \<le> nr_of_transactions (t5 ! 1)"
    and h6: "amount_spent (t5 ! 0) \<le> amount_spent (t5 ! 1)"
    by (simp_all add: t5_def)
  have h7: "in_int64 (Max (nr_of_transactions ` set t5) - Min (nr_of_transactions ` set t5))"
    and h8: "in_int64 (Max (amount_spent ` set t5) - Min (amount_spent ` set t5))"
    by (simp_all add: t5_ranges in_int64_def)
  from score_monotone [OF h1 h2 h3 h4 h5 h6 h7 h8] h1 h2 h3 h4 h5 h6 h7 h8
  show ?thesis by blast
qed

subsection \<open>Scorer: a feature with zero range\<close>

text \<open>
  C6, as the specification states it: if every customer has the same transaction count
  (or the same total amount), the Scorer fails with \<open>DegenerateFeatureError\<close> and no invalid
  number reaches the scaled values or the score. The notebook has no such check: on
  \<open>tied_counts\<close> the stage returns a table, and the scaled counts and the scores in it are
  not-a-number.
\<close>

theorem degenerate_feature_counterexample:
  "scorer_stage tied_counts \<noteq> Inl DegenerateFeatureError \<and>
   map scaled_tran (score_table tied_counts) = [NaN, NaN] \<and>
   map score (score_table tied_counts) = [NaN, NaN]"
  by (simp add: scorer_stage_def score_table_tied_counts)

text \<open>
  C6, as the notebook behaves: on a non-empty table in which all transaction counts are
  equal or all total amounts are equal, the Scorer raises nothing and returns one row
  per customer; every score is not-a-number, and the scaled value of each feature whose
  values are all equal is not-a-number in every row.
\<close>

theorem degenerate_feature_nan:
  assumes "t \<noteq> []"
    and "all_equal (map nr_of_transactions t) \<or> all_equal (map amount_spent t)"
  shows "scorer_stage t = Inr (score_table t) \<and> length (score_table t) = length t \<and>
     (\<forall>r\<in>set (score_table t). score r = NaN \<and>
        (all_equal (map nr_of_transactions t) \<longrightarrow> scaled_tran r = NaN) \<and>
        (all_equal (map amount_spent t) \<longrightarrow> scaled_amount r = NaN))"
proof -
  have tr: "scaled_tran r = NaN" "score r = NaN"
    if ae: "all_equal (map nr_of_transactions t)" and r: "r \<in> set (score_table t)" for r
  proof -
    from ae have eq: "\<forall>a\<in>set t. \<forall>b\<in>set t. nr_of_transactions a = nr_of_transactions b"
      unfolding all_equal_def set_map by blast
    from score_table_row [OF r] obtain c where c: "c \<in> set t"
      and rc: "r = score_row (Min (nr_of_transactions ` set t)) (Max (nr_of_transactions ` set t))
            (Min (amount_spent ` set t)) (Max (amount_spent ` set t)) c" by blast
    have mm: "Min (nr_of_transactions ` set t) = nr_of_transactions c"
      "Max (nr_of_transactions ` set t) = nr_of_transactions c"
      by (rule all_equal_Min_Max [OF eq c])+
    have "truediv (wrap64 (nr_of_transactions c - nr_of_transactions c))
            (wrap64 (nr_of_transactions c - nr_of_transactions c)) = NaN"
      by (simp add: truediv_def wrap64_zero)
    then show "scaled_tran r = NaN" "score r = NaN"
      unfolding rc mm score_row_def Let_def by simp_all
  qed
  have am: "scaled_amount r = NaN" "score r = NaN"
    if ae: "all_equal (map amount_spent t)" and r: "r \<in> set (score_table t)" for r
  proof -
    from ae have eq: "\<forall>a\<in>set t. \<forall>b\<in>set t. amount_spent a = amount_spent b"
      unfolding all_equal_def set_map by blast
    from score_table_row [OF r] obtain c where c: "c \<in> set t"
      and rc: "r = score_row (Min (nr_of_transactions ` set t)) (Max (nr_of_transactions ` set t))
            (Min (amount_spent ` set t)) (Max (amount_spent ` set t)) c" by blast
    have mm: "Min (amount_spent ` set t) = amount_spent c"
      "Max (amount_spent ` set t) = amount_spent c"
      by (rule all_equal_Min_Max [OF eq c])+
    have "truediv (wrap64 (amount_spent c - amount_spent c))
            (wrap64 (amount_spent c - amount_spent c)) = NaN"
      by (simp add: truediv_def wrap64_zero)
    then show "scaled_amount r = NaN" "score r = NaN"
      unfolding rc mm score_row_def Let_def by (simp_all add: fadd_NaN_right)
  qed
  have len: "length (score_table t) = length t"
    by (simp add: score_table_map [OF assms(1)])
  have sc: "score r = NaN" if r: "r \<in> set (score_table t)" for r
    using assms(2) tr(2) [OF _ r] am(2) [OF _ r] by blast
  show ?thesis
  proof (intro conjI ballI impI)
    show "scorer_stage t = Inr (score_table t)"
      by (simp add: scorer_stage_def)
    show "length (score_table t) = length t"
      by (rule len)
  next
    fix r assume "r \<in> set (score_table t)"
    then show "score r = NaN" by (rule sc)
  next
    fix r
    assume r: "r \<in> set (score_table t)" and ae: "all_equal (map nr_of_transactions t)"
    show "scaled_tran r = NaN" by (rule tr(1) [OF ae r])
  next
    fix r
    assume r: "r \<in> set (score_table t)" and ae: "all_equal (map amount_spent t)"
    show "scaled_amount r = NaN" by (rule am(1) [OF ae r])
  qed
qed

theorem degenerate_feature_nan_witness:
  "tied_counts \<noteq> [] \<and>
   all_equal (map nr_of_transactions tied_counts) \<and>
   scorer_stage tied_counts = Inr (score_table tied_counts) \<and>
   length (score_table tied_counts) = 2 \<and>
   scaled_tran (score_table tied_counts ! 0) = NaN \<and>
   score (score_table tied_counts ! 0) = NaN \<and>
   score (score_table tied_counts ! 1) = NaN"
proof -
  have h1: "tied_counts \<noteq> []"
    by (simp add: tied_counts_def)
  have h2: "all_equal (map nr_of_transactions tied_counts)"
    by (simp add: tied_counts_def all_equal_def)
  have len: "length tied_counts = 2"
    by (simp add: tied_counts_def)
  note th = degenerate_feature_nan [OF h1 disjI1 [OF h2]]
  from th len have l2: "length (score_table tied_counts) = 2" by simp
  then have m: "score_table tied_counts ! 0 \<in> set (score_table tied_counts)"
    "score_table tied_counts ! 1 \<in> set (score_table tied_counts)"
    by simp_all
  from th h1 h2 l2 m show ?thesis by blast
qed

subsection \<open>Churn classifier\<close>

text \<open>
  C2. The churn classifier labels a customer churned (flag 1) if and only if the
  customer's last transaction date is strictly before the cutoff date. The cutoff is
  2019-10-16; a last transaction on 2019-10-14 is churned, one on 2019-10-16 itself is
  not.
\<close>

theorem churn_strict:
  "(churned (classify a) = 1) =
     (case last_transaction_date a of None \<Rightarrow> False | Some d \<Rightarrow> d < cutoff_day) \<and>
   (churned_flag (Some d) = 1) = (d < cutoff_day) \<and>
   cutoff_day = (2019, 10, 16) \<and>
   churned_flag (Some (2019, 10, 14)) = 1 \<and>
   churned_flag (Some (2019, 10, 16)) = 0"
  by (simp add: classify_def churned_flag_def cutoff_day_def split: option.split)

subsection \<open>Aggregator\<close>

lemma filter_eq_distinct:
  assumes "distinct xs" "k \<in> set xs"
  shows "filter (\<lambda>x. x = k) xs = [k]"
  using assms by (induction xs) (auto simp: filter_empty_conv)

lemma aggregate_keys:
  "aggregate data =
     map (\<lambda>k. group_summary k (filter (\<lambda>t. customer_id t = k) data))
       (sort (remdups (map customer_id data)))"
  by (simp add: aggregate_def group_by_customer_def comp_def)

lemma cust_group_summary: "cust (group_summary k g) = k"
  by (simp add: group_summary_def)

lemma aggregator_stage_nonempty: "data \<noteq> [] \<Longrightarrow> aggregator_stage data = Inr (aggregate data)"
  by (simp add: aggregator_stage_def read_dtypes_def sum_columns_def)

lemma aggregator_stage_empty: "aggregator_stage [] = Inl ValueError"
  by (simp add: aggregator_stage_def read_dtypes_def sum_columns_def)

text \<open>
  C4, as the specification states it: the total amount of a customer's row equals the
  sum of that customer's transaction amounts. The sum of an int64 column wraps around:
  for one customer with the amounts \<open>2^63 - 1\<close> and 1 the sum is \<open>2^63\<close>, and the row holds
  \<open>-2^63\<close>.
\<close>

theorem aggregate_sum_counterexample:
  "aggregator_stage overflow_data =
     Inr [\<lparr>cust = ''FM1112'', last_transaction_date = Some (2019, 10, 14),
           transaction_count = 2, total_amount = - 9223372036854775808\<rparr>] \<and>
   (\<Sum>t\<leftarrow>overflow_data. if customer_id t = ''FM1112'' then tran_amount t else 0) =
     9223372036854775808"
proof -
  have ne: "overflow_data \<noteq> []"
    by (simp add: overflow_data_def)
  have "aggregate overflow_data =
     [\<lparr>cust = ''FM1112'', last_transaction_date = Some (2019, 10, 14),
       transaction_count = 2, total_amount = - 9223372036854775808\<rparr>]"
    by (simp add: aggregate_def group_by_customer_def group_summary_def overflow_data_def
        tx_def wrap64_def)
  moreover have "(\<Sum>t\<leftarrow>overflow_data. if customer_id t = ''FM1112'' then tran_amount t else 0) =
     9223372036854775808"
    by (simp add: overflow_data_def tx_def)
  ultimately show ?thesis
    by (simp add: aggregator_stage_nonempty [OF ne])
qed

text \<open>
  C4, as the notebook behaves: for every sequence of transactions and every customer id
  occurring in it, the Aggregator returns a table with exactly one row for that id. Its
  transaction count is the number of transactions with that id, its last transaction
  date is the maximum of their dates, and its total amount is the sum of their amounts
  wrapped around into the int64 range; that is the sum itself whenever the sum lies
  between \<open>-2^63\<close> and \<open>2^63 - 1\<close>.
\<close>

theorem aggregate_one_summary:
  assumes "k \<in> customer_id ` set data"
  shows "aggregator_stage data = Inr (aggregate data) \<and>
     filter (\<lambda>a. cust a = k) (aggregate data) =
       [\<lparr>cust = k,
         last_transaction_date = Some (Max (trans_date ` {t \<in> set data. customer_id t = k})),
         transaction_count = int (count_list (map customer_id data) k),
         total_amount =
           wrap64 (\<Sum>t\<leftarrow>data. if customer_id t = k then tran_amount t else 0)\<rparr>] \<and>
     (in_int64 (\<Sum>t\<leftarrow>data. if customer_id t = k then tran_amount t else 0) \<longrightarrow>
        wrap64 (\<Sum>t\<leftarrow>data. if customer_id t = k then tran_amount t else 0) =
          (\<Sum>t\<leftarrow>data. if customer_id t = k then tran_amount t else 0))"
proof -
  let ?g = "filter (\<lambda>t. customer_id t = k) data"
  have ne: "?g \<noteq> []"
    using assms by (auto simp: filter_empty_conv)
  then have mx: "series_max (map trans_date ?g) =
      Some (Max (trans_date ` {t \<in> set data. customer_id t = k}))"
    by (simp add: series_max_Max)
  have cnt: "length ?g = count_list (map customer_id data) k"
    by (induction data) auto
  have sm: "sum_list (map tran_amount ?g) =
      (\<Sum>t\<leftarrow>data. if customer_id t = k then tran_amount t else 0)"
    by (induction data) auto
  have "filter (\<lambda>a. cust a = k) (aggregate data) =
      map (\<lambda>k. group_summary k (filter (\<lambda>t. customer_id t = k) data))
        (filter (\<lambda>x. x = k) (sort (remdups (map customer_id data))))"
    by (simp add: aggregate_keys filter_map comp_def cust_group_summary)
  also have "\<dots> = [group_summary k ?g]"
    using assms by (simp add: filter_eq_distinct)
  finally have row: "filter (\<lambda>a. cust a = k) (aggregate data) =
       [\<lparr>cust = k,
         last_transaction_date = Some (Max (trans_date ` {t \<in> set data. customer_id t = k})),
         transaction_count = int (count_list (map customer_id data) k),
         total_amount =
           wrap64 (\<Sum>t\<leftarrow>data. if customer_id t = k then tran_amount t else 0)\<rparr>]"
    by (simp add: group_summary_def mx cnt sm)
  from assms have "data \<noteq> []" by auto
  then have st: "aggregator_stage data = Inr (aggregate data)"
    by (rule aggregator_stage_nonempty)
  from st row show ?thesis
    by (simp add: wrap64_id)
qed

theorem aggregate_one_summary_witness:
  "''FM1113'' \<in> customer_id ` set sample_data \<and>
   in_int64 (\<Sum>t\<leftarrow>sample_data. if customer_id t = ''FM1113'' then tran_amount t else 0) \<and>
   aggregator_stage sample_data = Inr (aggregate sample_data) \<and>
   filter (\<lambda>a. cust a = ''FM1113'') (aggregate sample_data) =
     [\<lparr>cust = ''FM1113'', last_transaction_date = Some (2019, 11, 9),
       transaction_count = 2, total_amount = 120\<rparr>]"
proof -
  have h: "''FM1113'' \<in> customer_id ` set sample_data"
    by (simp add: sample_data_def)
  have g: "{t \<in> set sample_data. customer_id t = ''FM1113''} =
      {\<lparr>customer_id = ''FM1113'', trans_date = (2019, 10, 14), tran_amount = 50\<rparr>,
       \<lparr>customer_id = ''FM1113'', trans_date = (2019, 11, 9), tran_amount = 70\<rparr>}"
    by (auto simp: sample_data_def)
  have m: "Max (trans_date ` {t \<in> set sample_data. customer_id t = ''FM1113''}) = (2019, 11, 9)"
    unfolding g by simp
  have c: "count_list (map customer_id sample_data) ''FM1113'' = 2"
    and s: "(\<Sum>t\<leftarrow>sample_data. if customer_id t = ''FM1113'' then tran_amount t else 0) = 120"
    by (simp_all add: sample_data_def)
  have i: "in_int64 (\<Sum>t\<leftarrow>sample_data. if customer_id t = ''FM1113'' then tran_amount t else 0)"
    unfolding s by (simp add: in_int64_def)
  note th = aggregate_one_summary [OF h]
  from th i have w: "wrap64 (\<Sum>t\<leftarrow>sample_data. if customer_id t = ''FM1113'' then tran_amount t else 0) = 120"
    unfolding s by blast
  have "filter (\<lambda>a. cust a = ''FM1113'') (aggregate sample_data) =
     [\<lparr>cust = ''FM1113'', last_transaction_date = Some (2019, 11, 9),
       transaction_count = 2, total_amount = 120\<rparr>]"
    using th w unfolding m c s by simp
  with h i th show ?thesis by blast
qed

text \<open>
  The whole table for \<open>sample_data\<close>: one row per customer, in customer order, and the
  churn flags that follow from it.
\<close>

lemma aggregate_sample:
  "aggregate sample_data =
     [\<lparr>cust = ''FM1112'', last_transaction_date = Some (2019, 9, 1),
       transaction_count = 1, total_amount = 30\<rparr>,
      \<lparr>cust = ''FM1113'', last_transaction_date = Some (2019, 11, 9),
       transaction_count = 2, total_amount = 120\<rparr>]"
  by (simp add: aggregate_def group_by_customer_def group_summary_def sample_data_def
      wrap64_def)

lemma best_churn_sample:
  "best_churn sample_data =
     [\<lparr>customer = ''FM1112'', churned = 1, nr_of_transactions = 1, amount_spent = 30\<rparr>,
      \<lparr>customer = ''FM1113'', churned = 0, nr_of_transactions = 2, amount_spent = 120\<rparr>]"
  by (simp add: best_churn_def classify_def aggregate_sample churned_flag_def cutoff_day_def)

subsection \<open>Aggregator: empty input\<close>

text \<open>
  C7, as the specification states it: on an empty transaction sequence the Aggregator
  fails with \<open>EmptyInputError\<close>. The notebook has no such error and no check for an
  empty table. The Aggregator does fail there, with the \<open>ValueError\<close> of pandas: the frame
  read from a file with a header and no row has object columns only, so
  \<^verbatim>\<open>group_by_customer.sum()\<close> has two columns, and its assignment to the one column
  \<^verbatim>\<open>amount_spent\<close> raises.
\<close>

theorem empty_input_counterexample:
  "aggregator_stage [] \<noteq> Inl EmptyInputError \<and> aggregator_stage [] = Inl ValueError"
  by (simp add: aggregator_stage_empty)

text \<open>
  C7, as the notebook behaves: if the transaction sequence is empty, the Aggregator
  fails with \<open>ValueError\<close> and the run ends there, with no scores and no selection
  produced. The Aggregator fails on no other input.
\<close>

theorem empty_input_aborts:
  "aggregator_stage [] = Inl ValueError \<and> run [] = Inl ValueError \<and>
   aggregator_stage data = (if data = [] then Inl ValueError else Inr (aggregate data))"
  by (simp add: run_def aggregator_stage_empty aggregator_stage_nonempty)

subsection \<open>Selector\<close>

lemma score_table_pop3:
  "score_table pop3 =
    [\<lparr>customer = ''FM1'', churned = 1, nr_of_transactions = 2, amount_spent = 10,
      scaled_tran = Fin 0, scaled_amount = Fin 0, score = Fin 0\<rparr>,
     \<lparr>customer = ''FM2'', churned = 1, nr_of_transactions = 5, amount_spent = 40,
      scaled_tran = Fin (3/7), scaled_amount = Fin (3/8), score = Fin (1125/28)\<rparr>,
     \<lparr>customer = ''FM3'', churned = 0, nr_of_transactions = 9, amount_spent = 90,
      scaled_tran = Fin 1, scaled_amount = Fin 1, score = Fin 100\<rparr>]"
  apply (simp add: pop3_def score_table_def score_row_def truediv_def wrap64_def)
  apply (simp only: Let_def)
  done

lemma churned_score_row: "churned (score_row a b c d r) = churned r"
  by (simp add: score_row_def Let_def)

lemma loc_churned_crowd: "loc_churned crowd = crowd" and length_crowd: "length crowd = 51"
proof -
  have ne: "crowd_summaries \<noteq> []"
    by (simp add: crowd_summaries_def)
  have all: "\<forall>r\<in>set crowd_summaries. churned r = 1"
    by (auto simp: crowd_summaries_def)
  show "loc_churned crowd = crowd"
    using all by (simp add: crowd_def loc_churned_def score_table_map [OF ne] filter_map
        comp_def churned_score_row)
  show "length crowd = 51"
    by (simp add: crowd_def score_table_map [OF ne]) (simp add: crowd_summaries_def)
qed

text \<open>
  C3, as the specification states it: for every budget and coupon value, the Selector
  returns the first min(N, number of churned customers) churned rows, with
  \<open>N = floor(budget / coupon_value)\<close>. The notebook's selection takes no budget and no
  coupon value: its row count is the literal 50. With budget 1000 and coupon value 10,
  \<open>N\<close> is 100, and of 51 churned customers the notebook keeps 50, not 51.
\<close>

theorem selector_budget_counterexample:
  "spec_N 1000 10 = 100 \<and> length (loc_churned crowd) = 51 \<and>
   length (top_50_churned crowd) = 50 \<and>
   top_50_churned crowd \<noteq>
     take (min (spec_N 1000 10) (length (loc_churned crowd))) (loc_churned crowd)"
proof -
  have n: "spec_N 1000 10 = 100"
    by (simp add: spec_N_def)
  have l: "length (top_50_churned crowd) = 50"
    by (simp add: top_50_churned_def head_rows_def loc_churned_crowd length_crowd)
  have l': "length (take (min (spec_N 1000 10) (length (loc_churned crowd))) (loc_churned crowd)) = 51"
    by (simp add: n loc_churned_crowd length_crowd)
  have "top_50_churned crowd \<noteq>
     take (min (spec_N 1000 10) (length (loc_churned crowd))) (loc_churned crowd)"
  proof
    assume "top_50_churned crowd =
      take (min (spec_N 1000 10) (length (loc_churned crowd))) (loc_churned crowd)"
    then have "length (top_50_churned crowd) =
      length (take (min (spec_N 1000 10) (length (loc_churned crowd))) (loc_churned crowd))"
      by (rule arg_cong)
    with l l' show False by simp
  qed
  with n l show ?thesis
    by (simp add: loc_churned_crowd length_crowd)
qed

text \<open>
  C3, as the notebook behaves: for every scored table, and every budget and coupon value
  with \<open>floor(budget / coupon_value) = 50\<close> (1000 and 20 in the notebook), the selection is
  exactly the first min(N, number of churned customers) rows of the churned rows in the
  order of the table. It holds churned customers only and at most \<open>N\<close> rows. Nothing is
  sorted by score: the output is a prefix of the filtered table.
\<close>

theorem selector_prefix:
  assumes "spec_N budget coupon_value = 50"
  shows "top_50_churned t =
       take (min (spec_N budget coupon_value) (length (filter (\<lambda>r. churned r = 1) t)))
         (filter (\<lambda>r. churned r = 1) t) \<and>
     (\<forall>r\<in>set (top_50_churned t). churned r = 1) \<and>
     length (top_50_churned t) \<le> spec_N budget coupon_value"
proof (intro conjI ballI)
  define c where "c = filter (\<lambda>r. churned r = 1) t"
  have eq: "top_50_churned t = take 50 c"
    by (simp add: top_50_churned_def head_rows_def loc_churned_def c_def)
  have "take 50 c = take (min 50 (length c)) c"
    by (simp add: min_def)
  then show "top_50_churned t =
       take (min (spec_N budget coupon_value) (length (filter (\<lambda>r. churned r = 1) t)))
         (filter (\<lambda>r. churned r = 1) t)"
    unfolding assms eq c_def .
  show "length (top_50_churned t) \<le> spec_N budget coupon_value"
    unfolding assms eq by simp
  fix r
  assume "r \<in> set (top_50_churned t)"
  then have "r \<in> set c"
    unfolding eq by (rule in_set_takeD)
  then show "churned r = 1"
    unfolding c_def by simp
qed

theorem selector_prefix_witness:
  "spec_N 1000 20 = 50 \<and>
   top_50_churned (score_table pop3) =
     [\<lparr>customer = ''FM1'', churned = 1, nr_of_transactions = 2, amount_spent = 10,
       scaled_tran = Fin 0, scaled_amount = Fin 0, score = Fin 0\<rparr>,
      \<lparr>customer = ''FM2'', churned = 1, nr_of_transactions = 5, amount_spent = 40,
       scaled_tran = Fin (3/7), scaled_amount = Fin (3/8), score = Fin (1125/28)\<rparr>] \<and>
   map churned (top_50_churned (score_table pop3)) = [1, 1] \<and>
   length (top_50_churned (score_table pop3)) \<le> 50"
proof -
  have h: "spec_N 1000 20 = 50"
    by (simp add: spec_N_def)
  from selector_prefix [OF h, of "score_table pop3"] h show ?thesis
    by (simp add: score_table_pop3)
qed

subsection \<open>Coupon amount\<close>

lemma round_raw_coupon: "round (24371967 / 1250000 :: rat) = 19"
  unfolding round_def by (rule floor_unique) simp_all

lemma reference_like_mean:
  "series_mean (map tran_amount reference_like) = Fin (64991912 / 1000000)"
  by (simp add: series_mean_def reference_like_def tx_def sum_list_replicate)

text \<open>
  C8, as the specification states it: for the reference data the raw coupon is
  19.4975736 and the coupon rounded to the nearest unit is 20. The nearest unit to
  19.4975736 is 19.
\<close>

theorem coupon_rounding_counterexample:
  "coupon reference_like = Fin (194975736 / 10000000) \<and>
   spec_rounded_coupon (coupon reference_like) = Some 19 \<and>
   spec_rounded_coupon (coupon reference_like) \<noteq> Some 20"
proof -
  have c: "coupon reference_like = Fin (194975736 / 10000000)"
    by (simp add: coupon_def reference_like_mean)
  have "spec_rounded_coupon (coupon reference_like) = Some 19"
    by (simp add: c spec_rounded_coupon_def round_raw_coupon)
  with c show ?thesis by simp
qed

text \<open>
  C8, as the notebook behaves: for data whose mean transaction amount is 64.991912
  (64.99 to two decimals, the reference data), \<^verbatim>\<open>coupon\<close> is 0.3 times the mean,
  19.4975736, and \<^verbatim>\<open>nr_of_customers\<close> is 1000 divided by it; the nearest unit to the
  coupon is 19; and the selection keeps \<open>floor(1000 / 20) = 50\<close> rows, or all churned rows
  when there are fewer.
\<close>

theorem coupon_reference:
  assumes "series_mean (map tran_amount data) = Fin (64991912 / 1000000)"
  shows "coupon data = Fin (194975736 / 10000000) \<and>
     nr_of_customers data = Fin (1000 / (194975736 / 10000000)) \<and>
     spec_rounded_coupon (coupon data) = Some 19 \<and>
     length (top_50_churned t) = min (spec_N 1000 20) (length (loc_churned t)) \<and>
     length (top_50_churned t) = min 50 (length (loc_churned t))"
proof -
  have c: "coupon data = Fin (194975736 / 10000000)"
    by (simp add: coupon_def assms)
  have n: "nr_of_customers data = Fin (1000 / (194975736 / 10000000))"
    by (simp add: nr_of_customers_def c)
  have r: "spec_rounded_coupon (coupon data) = Some 19"
    by (simp add: spec_rounded_coupon_def c round_raw_coupon)
  have k: "spec_N 1000 20 = 50"
    by (simp add: spec_N_def)
  have l: "length (top_50_churned t) = min 50 (length (loc_churned t))"
    by (simp add: top_50_churned_def head_rows_def min.commute)
  from c n r k l show ?thesis by simp
qed

theorem coupon_reference_witness:
  "series_mean (map tran_amount reference_like) = Fin (64991912 / 1000000) \<and>
   coupon reference_like = Fin (194975736 / 10000000) \<and>
   nr_of_customers reference_like = Fin (1000 / (194975736 / 10000000)) \<and>
   spec_rounded_coupon (coupon reference_like) = Some 19 \<and>
   length (top_50_churned crowd) = 50"
proof -
  note h = reference_like_mean
  have "length (top_50_churned crowd) = 50"
    using coupon_reference [OF h, of crowd] by (simp add: loc_churned_crowd length_crowd)
  with coupon_reference [OF h, of crowd] h show ?thesis by blast
qed

subsection \<open>The five customers as a population\<close>

text \<open>
  C9, as the specification states it: in the population of exactly the five customers
  \<open>t5\<close>, the customer with 13 transactions and amount 857 has a score of about 25.57.
  That customer attains both minima of this population, so the score is exactly 0,
  which is not within 1 of 25.57.
\<close>

theorem five_customers_counterexample:
  "nr_of_transactions (score_table t5 ! 4) = 13 \<and> amount_spent (score_table t5 ! 4) = 857 \<and>
   score (score_table t5 ! 4) = Fin 0 \<and>
   \<not> fin_between (2557 / 100 - 1) (2557 / 100 + 1) (score (score_table t5 ! 4))"
  by (simp add: score_table_t5 fin_between_def)

text \<open>
  C9, as the notebook behaves: in the population \<open>t5\<close>, with counts 15, 20, 19, 22, 13 and
  amounts 1012, 1490, 1432, 1659, 857, the customer with 13 transactions has scaled
  count 0, the customer with 22 transactions has scaled count 1, and the score of the
  customer with 13 transactions and amount 857 is exactly 0.
\<close>

theorem five_customers_scores:
  "map nr_of_transactions t5 = [15, 20, 19, 22, 13] \<and>
   map amount_spent t5 = [1012, 1490, 1432, 1659, 857] \<and>
   scaled_tran (score_table t5 ! 4) = Fin 0 \<and>
   scaled_tran (score_table t5 ! 3) = Fin 1 \<and>
   score (score_table t5 ! 4) = Fin 0"
  by (simp add: score_table_t5) (simp add: t5_def)

text \<open>
  The value 25.57 is the score of that customer in the notebook's full population. The
  notebook gives the range of the counts as 4 to 39 and the largest amount as 2933; the
  smallest amount consistent with the ten rows it prints is 149.
\<close>

lemma notebook_row_FM1116:
  "score (score_row 4 39 149 2933 (t5 ! 4)) = Fin (20765 / 812)"
  "fin_between (25572 / 1000) (25573 / 1000) (score (score_row 4 39 149 2933 (t5 ! 4)))"
  by (simp_all add: t5_def score_row_def truediv_def Let_def fin_between_def wrap64_def)

end
